theory Spec2Isabelle
  imports Complex_Main "HOL-Library.Multiset"
begin

section \<open>JavaScript values\<close>

text \<open>
  The handlers of this repository run on Node.js and work on the plain values that the
  DynamoDB document client hands out and takes in: numbers, strings, booleans, null, arrays
  and objects. A property that is not there reads as \<open>undefined\<close>.

  A JavaScript number is an IEEE double: NaN, the two infinities, or a finite value,
  which the model holds as the rational it denotes (so \<open>-0\<close> is \<open>0\<close>). The numbers
  that the store hands out are doubles; a number read from a string is rounded to the
  nearest double by \<open>to_double\<close> below. A string is the list of its UTF-8 bytes, the
  form in which the store and the gateway hold it.
\<close>

datatype jsnum = NaN | NegInf | Fin rat | PosInf

datatype jsval =
    JUndefined
  | JNull
  | JBool bool
  | JNum jsnum
  | JStr string
  | JArr "jsval list"
  | JObj "(string \<times> jsval) list"

text \<open>
  An object is the list of its own properties in the order in which \<open>for ... in\<close>
  enumerates them; a key is looked up with \<open>map_of\<close>. The values are data: no
  property holds a function, and none is named \<open>__proto__\<close>, the one name whose
  assignment sets the prototype instead of a property.
\<close>

type_synonym jsobj = "(string \<times> jsval) list"

datatype js_error =
    TypeError
  | SyntaxError
  | Error string
  | StoreError string

text \<open>\<open>isNaN\<close> on a number, and the sign tests a sort makes on a comparator's result.\<close>

fun isNaN :: "jsnum \<Rightarrow> bool" where
  "isNaN NaN = True"
| "isNaN _ = False"

fun num_pos :: "jsnum \<Rightarrow> bool" where
  "num_pos (Fin r) = (0 < r)"
| "num_pos PosInf = True"
| "num_pos _ = False"

fun num_neg :: "jsnum \<Rightarrow> bool" where
  "num_neg (Fin r) = (r < 0)"
| "num_neg NegInf = True"
| "num_neg _ = False"

text \<open>
  The binary \<open>-\<close> on two numbers. On two doubles the engine rounds the difference,
  which keeps its sign and is 0 only when the two are equal, since both are multiples of
  the smallest double; the sorts below read nothing but that sign.
\<close>

fun num_sub :: "jsnum \<Rightarrow> jsnum \<Rightarrow> jsnum" where
  "num_sub NaN _ = NaN"
| "num_sub _ NaN = NaN"
| "num_sub (Fin a) (Fin b) = Fin (a - b)"
| "num_sub (Fin a) PosInf = NegInf"
| "num_sub (Fin a) NegInf = PosInf"
| "num_sub PosInf PosInf = NaN"
| "num_sub PosInf _ = PosInf"
| "num_sub NegInf NegInf = NaN"
| "num_sub NegInf _ = NegInf"

text \<open>Truthiness: what \<open>!x\<close>, \<open>x || y\<close> and \<open>if (x)\<close> test.\<close>

fun truthy :: "jsval \<Rightarrow> bool" where
  "truthy JUndefined = False"
| "truthy JNull = False"
| "truthy (JBool b) = b"
| "truthy (JNum n) = (n \<noteq> NaN \<and> n \<noteq> Fin 0)"
| "truthy (JStr s) = (s \<noteq> [])"
| "truthy (JArr xs) = True"
| "truthy (JObj kvs) = True"

definition js_or :: "jsval \<Rightarrow> jsval \<Rightarrow> jsval" where
  "js_or a b = (if truthy a then a else b)"

text \<open>Reading a property of an object: \<open>player['coins-collected']\<close>, \<open>player.username\<close>.\<close>

definition field :: "jsobj \<Rightarrow> string \<Rightarrow> jsval" where
  "field obj k = (case map_of obj k of None \<Rightarrow> JUndefined | Some v \<Rightarrow> v)"

section \<open>Strings to numbers\<close>

text \<open>
  The white space and line terminators that \<open>parseFloat\<close>, \<open>parseInt\<close> and
  \<open>Number\<close> strip, as UTF-8: tab, line feed, vertical tab, form feed, carriage
  return, space, U+00A0, U+1680, U+2000 to U+200A, U+2028, U+2029, U+202F, U+205F, U+3000
  and U+FEFF.
\<close>

definition white_space :: "string list" where
  "white_space =
     [[CHR 0x09], [CHR 0x0A], [CHR 0x0B], [CHR 0x0C], [CHR 0x0D], [CHR 0x20],
      [CHR 0xC2, CHR 0xA0], [CHR 0xE1, CHR 0x9A, CHR 0x80],
      [CHR 0xE2, CHR 0x80, CHR 0x80], [CHR 0xE2, CHR 0x80, CHR 0x81],
      [CHR 0xE2, CHR 0x80, CHR 0x82], [CHR 0xE2, CHR 0x80, CHR 0x83],
      [CHR 0xE2, CHR 0x80, CHR 0x84], [CHR 0xE2, CHR 0x80, CHR 0x85],
      [CHR 0xE2, CHR 0x80, CHR 0x86], [CHR 0xE2, CHR 0x80, CHR 0x87],
      [CHR 0xE2, CHR 0x80, CHR 0x88], [CHR 0xE2, CHR 0x80, CHR 0x89],
      [CHR 0xE2, CHR 0x80, CHR 0x8A], [CHR 0xE2, CHR 0x80, CHR 0xA8],
      [CHR 0xE2, CHR 0x80, CHR 0xA9], [CHR 0xE2, CHR 0x80, CHR 0xAF],
      [CHR 0xE2, CHR 0x81, CHR 0x9F], [CHR 0xE3, CHR 0x80, CHR 0x80],
      [CHR 0xEF, CHR 0xBB, CHR 0xBF]]"

text \<open>The rest of a text after one of the given words, if it starts with one; and the
  text after all such words at its start.\<close>

fun strip_one :: "string list \<Rightarrow> string \<Rightarrow> string option" where
  "strip_one [] s = None"
| "strip_one (w # ws) s =
     (if w \<noteq> [] \<and> take (length w) s = w then Some (drop (length w) s) else strip_one ws s)"

lemma strip_one_shorter: "strip_one ws s = Some r \<Longrightarrow> length r < length s"
proof (induction ws)
  case Nil
  then show ?case by simp
next
  case (Cons w ws)
  show ?case
  proof (cases "w \<noteq> [] \<and> take (length w) s = w")
    case True
    then have "length (take (length w) s) = length w" by simp
    then have "length w \<le> length s" by simp
    moreover have "r = drop (length w) s" using Cons.prems True by simp
    ultimately show ?thesis using True by (cases w) auto
  next
    case False
    then show ?thesis using Cons by auto
  qed
qed

function strip_all :: "string list \<Rightarrow> string \<Rightarrow> string" where
  "strip_all ws s = (case strip_one ws s of None \<Rightarrow> s | Some r \<Rightarrow> strip_all ws r)"
  by pat_completeness auto
termination
  by (relation "measure (\<lambda>(ws, s). length s)") (auto simp: strip_one_shorter)

definition trim_start :: "string \<Rightarrow> string" where
  "trim_start s = strip_all white_space s"

definition trim_both :: "string \<Rightarrow> string" where
  "trim_both s = rev (strip_all (map rev white_space) (rev (trim_start s)))"

text \<open>
  The double nearest to a rational, ties to the even significand. With \<open>p / q\<close> the
  absolute value and \<open>2 ^ e \<le> p / q < 2 ^ (e + 1)\<close>, the last place of the double has
  the exponent \<open>s = e - 52\<close>, and \<open>-1074\<close> for a subnormal; the significand is
  \<open>p / (q * 2 ^ s)\<close> rounded to an integer \<open>m\<close>. A value that rounds to \<open>2 ^ 1024\<close>
  or more is an infinity, and one below half the smallest double is 0.
\<close>

function bit_length :: "int \<Rightarrow> int" where
  "bit_length n = (if n \<le> 0 then 0 else 1 + bit_length (n div 2))"
  by pat_completeness auto
termination
  by (relation "measure nat") auto

definition pow2 :: "int \<Rightarrow> int" where
  "pow2 e = 2 ^ nat e"

definition round_half_even :: "int \<Rightarrow> int \<Rightarrow> int" where
  "round_half_even n d =
     (let f = n div d; r = n mod d
      in if 2 * r < d then f else if d < 2 * r then f + 1 else if even f then f else f + 1)"

definition floor_log2 :: "int \<Rightarrow> int \<Rightarrow> int" where
  "floor_log2 p q =
     (let e = bit_length p - bit_length q
      in if (if 0 \<le> e then q * pow2 e \<le> p else q \<le> p * pow2 (- e)) then e else e - 1)"

definition to_double :: "rat \<Rightarrow> jsnum" where
  "to_double r =
     (let (n, q) = quotient_of r; p = \<bar>n\<bar>
      in if p = 0 then Fin 0
         else
           (let s = max (floor_log2 p q - 52) (- 1074);
                m = (if s < 0 then round_half_even (p * pow2 (- s)) q
                     else round_half_even p (q * pow2 s));
                v = (if s < 0 then Fract m (pow2 (- s)) else of_int (m * pow2 s))
            in if 0 \<le> s \<and> pow2 1024 \<le> m * pow2 s then (if n < 0 then NegInf else PosInf)
               else Fin (if n < 0 then - v else v)))"

text \<open>The value of a character as a digit of the given radix, if it is one.\<close>

definition digit_in :: "nat \<Rightarrow> char \<Rightarrow> nat option" where
  "digit_in radix c =
     (let n = (of_char c :: nat);
          v = (if 48 \<le> n \<and> n \<le> 57 then Some (n - 48)
               else if 97 \<le> n \<and> n \<le> 122 then Some (n - 87)
               else if 65 \<le> n \<and> n \<le> 90 then Some (n - 55)
               else None)
      in case v of None \<Rightarrow> None | Some d \<Rightarrow> if d < radix then Some d else None)"

definition is_digit_in :: "nat \<Rightarrow> char \<Rightarrow> bool" where
  "is_digit_in radix c = (digit_in radix c \<noteq> None)"

definition digits_value :: "nat \<Rightarrow> string \<Rightarrow> int" where
  "digits_value radix ds =
     foldl (\<lambda>acc c. int radix * acc + (case digit_in radix c of None \<Rightarrow> 0 | Some d \<Rightarrow> int d))
       0 ds"

fun num_negate :: "jsnum \<Rightarrow> jsnum" where
  "num_negate (Fin r) = Fin (- r)"
| "num_negate PosInf = NegInf"
| "num_negate NegInf = PosInf"
| "num_negate NaN = NaN"

text \<open>
  \<open>ExponentPart\<close> of a decimal literal: \<open>e\<close> or \<open>E\<close>, an optional sign and at
  least one digit. When the digits are missing the exponent is not part of the literal.
  The result is the exponent and the text that follows.
\<close>

definition exponent_part :: "string \<Rightarrow> int \<times> string" where
  "exponent_part s =
     (case s of
        [] \<Rightarrow> (0, s)
      | c # r \<Rightarrow>
          if c = CHR ''e'' \<or> c = CHR ''E'' then
            (let (neg, r') =
                   (case r of
                      [] \<Rightarrow> (False, r)
                    | d # t \<Rightarrow> if d = CHR ''-'' then (True, t)
                               else if d = CHR ''+'' then (False, t) else (False, r));
                 ds = takeWhile (is_digit_in 10) r'
             in if ds = [] then (0, s)
                else ((if neg then - digits_value 10 ds else digits_value 10 ds),
                      dropWhile (is_digit_in 10) r'))
          else (0, s))"

definition scale10 :: "int \<Rightarrow> int \<Rightarrow> rat" where
  "scale10 m e = (if 0 \<le> e then of_int m * 10 ^ nat e else of_int m / 10 ^ nat (- e))"

text \<open>
  The longest prefix that is a \<open>StrUnsignedDecimalLiteral\<close>: \<open>Infinity\<close>, or digits
  with an optional fraction and exponent, where at least one digit stands before or after
  the point. The result is the value, which is the double nearest to the number that the
  literal denotes, and the rest of the text; \<open>None\<close> when no prefix is a literal.
\<close>

definition str_unsigned_decimal :: "string \<Rightarrow> (jsnum \<times> string) option" where
  "str_unsigned_decimal s =
     (if take 8 s = ''Infinity'' then Some (PosInf, drop 8 s)
      else
        (let ip = takeWhile (is_digit_in 10) s;
             r1 = dropWhile (is_digit_in 10) s
         in case r1 of
              [] \<Rightarrow> if ip = [] then None else Some (to_double (of_int (digits_value 10 ip)), [])
            | c # r2 \<Rightarrow>
                if c = CHR ''.'' then
                  (let fp = takeWhile (is_digit_in 10) r2;
                       r3 = dropWhile (is_digit_in 10) r2
                   in if ip = [] \<and> fp = [] then None
                      else (let (e, r4) = exponent_part r3
                            in Some (to_double (scale10 (digits_value 10 (ip @ fp)) (e - int (length fp))),
                                     r4)))
                else if ip = [] then None
                else (let (e, r4) = exponent_part r1
                      in Some (to_double (scale10 (digits_value 10 ip) e), r4))))"

definition str_decimal :: "string \<Rightarrow> (jsnum \<times> string) option" where
  "str_decimal s =
     (case s of
        [] \<Rightarrow> None
      | c # r \<Rightarrow>
          if c = CHR ''+'' then str_unsigned_decimal r
          else if c = CHR ''-'' then map_option (\<lambda>(v, t). (num_negate v, t)) (str_unsigned_decimal r)
          else str_unsigned_decimal s)"

text \<open>\<open>parseFloat\<close> on a string: leading white space is dropped, then the longest
  decimal literal is read and whatever follows it is ignored.\<close>

definition parseFloat_str :: "string \<Rightarrow> jsnum" where
  "parseFloat_str s = (case str_decimal (trim_start s) of None \<Rightarrow> NaN | Some (v, r) \<Rightarrow> v)"

text \<open>
  \<open>parseInt\<close> on a string with no radix argument: leading white space, an optional
  sign, an optional \<open>0x\<close> or \<open>0X\<close> that selects radix 16, then the longest run of
  digits; no digit gives NaN, and the integer is rounded to the nearest double.
\<close>

definition parseInt_str :: "string \<Rightarrow> jsnum" where
  "parseInt_str s =
     (let t = trim_start s;
          (neg, u) =
            (case t of
               [] \<Rightarrow> (False, t)
             | c # r \<Rightarrow> if c = CHR ''-'' then (True, r)
                        else if c = CHR ''+'' then (False, r) else (False, t));
          (radix, w) = (if take 2 u = ''0x'' \<or> take 2 u = ''0X'' then (16, drop 2 u) else (10, u));
          ds = takeWhile (is_digit_in radix) w
      in if ds = [] then NaN
         else to_double (if neg then - of_int (digits_value radix ds)
                         else of_int (digits_value radix ds)))"

text \<open>
  \<open>Number\<close> on a string (the conversion that \<open>-\<close> applies to a string operand): the
  whole text between the white space must be a literal; the empty text is 0; a literal is
  a decimal literal or an unsigned binary, octal or hexadecimal integer.
\<close>

definition radix_literal :: "nat \<Rightarrow> string \<Rightarrow> jsnum" where
  "radix_literal radix ds =
     (if ds \<noteq> [] \<and> list_all (is_digit_in radix) ds
      then to_double (of_int (digits_value radix ds))
      else NaN)"

definition stringToNumber :: "string \<Rightarrow> jsnum" where
  "stringToNumber s =
     (let t = trim_both s
      in if t = [] then Fin 0
         else if take 2 t = ''0x'' \<or> take 2 t = ''0X'' then radix_literal 16 (drop 2 t)
         else if take 2 t = ''0o'' \<or> take 2 t = ''0O'' then radix_literal 8 (drop 2 t)
         else if take 2 t = ''0b'' \<or> take 2 t = ''0B'' then radix_literal 2 (drop 2 t)
         else (case str_decimal t of
                 None \<Rightarrow> NaN
               | Some (v, r) \<Rightarrow> if r = [] then v else NaN))"

text \<open>
  \<open>ToNumber\<close> on a value. An array is first joined into a string: the empty array
  gives the empty string (0), an array of one element the string of that element (where
  null and undefined give the empty string), and a longer array a string with a comma
  (NaN). A plain object gives \<open>[object Object]\<close> (NaN). A number printed and read
  back is itself.
\<close>

fun toNumber :: "jsval \<Rightarrow> jsnum" where
  "toNumber JUndefined = NaN"
| "toNumber JNull = Fin 0"
| "toNumber (JBool b) = (if b then Fin 1 else Fin 0)"
| "toNumber (JNum n) = n"
| "toNumber (JStr s) = stringToNumber s"
| "toNumber (JObj kvs) = NaN"
| "toNumber (JArr []) = Fin 0"
| "toNumber (JArr [x]) =
     (case x of
        JUndefined \<Rightarrow> Fin 0
      | JNull \<Rightarrow> Fin 0
      | JBool b \<Rightarrow> NaN
      | JNum n \<Rightarrow> n
      | JStr s \<Rightarrow> stringToNumber s
      | JArr ys \<Rightarrow> toNumber (JArr ys)
      | JObj kvs \<Rightarrow> NaN)"
| "toNumber (JArr (x # y # zs)) = NaN"

text \<open>
  \<open>parseFloat\<close> on a value: the value is turned into a string and the string is read.
  The strings of undefined, null, a boolean, a plain object and the empty array start
  with no digit. The string of a non-empty array starts with the string of its first
  element, followed by a comma or by nothing, neither of which extends a literal.
\<close>

fun parseFloat :: "jsval \<Rightarrow> jsnum" where
  "parseFloat JUndefined = NaN"
| "parseFloat JNull = NaN"
| "parseFloat (JBool b) = NaN"
| "parseFloat (JNum n) = n"
| "parseFloat (JStr s) = parseFloat_str s"
| "parseFloat (JObj kvs) = NaN"
| "parseFloat (JArr []) = NaN"
| "parseFloat (JArr (x # xs)) =
     (case x of
        JUndefined \<Rightarrow> NaN
      | JNull \<Rightarrow> NaN
      | JBool b \<Rightarrow> NaN
      | JNum n \<Rightarrow> n
      | JStr s \<Rightarrow> parseFloat_str s
      | JArr ys \<Rightarrow> parseFloat (JArr ys)
      | JObj kvs \<Rightarrow> NaN)"

text \<open>The binary \<open>-\<close> on two values.\<close>

definition js_sub :: "jsval \<Rightarrow> jsval \<Rightarrow> jsnum" where
  "js_sub a b = num_sub (toNumber a) (toNumber b)"

section \<open>Arrays: sort\<close>

text \<open>
  \<open>Array.prototype.sort(compareFn)\<close> sorts the array in place and returns it. The sort
  is stable, and an element \<open>a\<close> goes after \<open>b\<close> when \<open>compareFn(a, b)\<close> is
  positive; a result that is NaN counts as 0. For a comparator that orders the elements
  consistently the result is the one stable arrangement, which insertion from the right
  computes; for an inconsistent comparator the language leaves the order to the engine.
\<close>

fun js_insert :: "('a \<Rightarrow> 'a \<Rightarrow> jsnum) \<Rightarrow> 'a \<Rightarrow> 'a list \<Rightarrow> 'a list" where
  "js_insert cmp x [] = [x]"
| "js_insert cmp x (y # ys) = (if num_pos (cmp x y) then y # js_insert cmp x ys else x # y # ys)"

definition js_sort :: "('a \<Rightarrow> 'a \<Rightarrow> jsnum) \<Rightarrow> 'a list \<Rightarrow> 'a list" where
  "js_sort cmp xs = foldr (js_insert cmp) xs []"

section \<open>The leaderboard handler\<close>

text \<open>
  The Lambda function that scans the table \<open>player-stats\<close> and answers with the top
  10 players by coins, the top 10 by enemies defeated and the fastest times of all
  players (\<open>src/unnamed/part_001\<close>; the line numbers below are its lines).

  The entries of the response body: \<open>{username, coins}\<close>, \<open>{username, enemies}\<close> and
  \<open>{username, fastestTimes}\<close>.
\<close>

record entry =
  username :: jsval

record coins_entry = entry +
  coins :: jsval

record enemies_entry = entry +
  enemies :: jsval

record times_entry = entry +
  fastestTimes :: "(string \<times> jsnum list) list"

text \<open>
  What the handler passes to \<open>JSON.stringify\<close> as the body, for both handlers modelled
  here: the leaderboard \<open>{topCoins, topEnemies, allFastestTimes}\<close>;
  \<open>{error: err.message}\<close>, kept as the error whose message it is; \<open>{message}\<close>;
  \<open>{message, data}\<close>; and \<open>{message, error}\<close>.
\<close>

datatype body =
    Leaderboard "coins_entry list" "enemies_entry list" "times_entry list"
  | ErrorBody js_error
  | Message string
  | MessageData string jsobj
  | MessageError string js_error

record response =
  statusCode :: jsval
  body :: body
  headers :: "(string \<times> string) list option"

text \<open>The comparators of the two sorts (lines 42 and 54).\<close>

definition coinsCmp :: "jsobj \<Rightarrow> jsobj \<Rightarrow> jsnum" where
  "coinsCmp a b =
     js_sub (js_or (field b ''coins-collected'') (JNum (Fin 0)))
            (js_or (field a ''coins-collected'') (JNum (Fin 0)))"

definition enemiesCmp :: "jsobj \<Rightarrow> jsobj \<Rightarrow> jsnum" where
  "enemiesCmp a b =
     js_sub (js_or (field b ''enemies-defeated'') (JNum (Fin 0)))
            (js_or (field a ''enemies-defeated'') (JNum (Fin 0)))"

definition coinsEntry :: "jsobj \<Rightarrow> coins_entry" where
  "coinsEntry player =
     \<lparr>username = field player ''username'',
      coins = js_or (field player ''coins-collected'') (JNum (Fin 0))\<rparr>"

definition enemiesEntry :: "jsobj \<Rightarrow> enemies_entry" where
  "enemiesEntry player =
     \<lparr>username = field player ''username'',
      enemies = js_or (field player ''enemies-defeated'') (JNum (Fin 0))\<rparr>"

text \<open>
  \<open>players.sort(...).slice(0, n).map(...)\<close>, with the handler's 10 as \<open>n\<close>. The sort
  works in place, so the statement also changes the array \<open>players\<close>: the first
  component is the array afterwards, the second the value of the expression.
\<close>

definition topCoinsN :: "nat \<Rightarrow> jsobj list \<Rightarrow> jsobj list \<times> coins_entry list" where
  "topCoinsN n players =
     (let sorted = js_sort coinsCmp players
      in (sorted, map coinsEntry (take n sorted)))"

definition topEnemiesN :: "nat \<Rightarrow> jsobj list \<Rightarrow> jsobj list \<times> enemies_entry list" where
  "topEnemiesN n players =
     (let sorted = js_sort enemiesCmp players
      in (sorted, map enemiesEntry (take n sorted)))"

text \<open>
  Reading the property \<open>L\<close> or \<open>N\<close> of a value: a TypeError on null and undefined, the
  property of an object, and undefined on anything else (arrays, strings, numbers and
  booleans have no property of these names). \<open>v?.L\<close> is undefined on null and
  undefined instead.
\<close>

fun read_prop :: "jsval \<Rightarrow> string \<Rightarrow> js_error + jsval" where
  "read_prop JUndefined k = Inl TypeError"
| "read_prop JNull k = Inl TypeError"
| "read_prop (JObj kvs) k = Inr (field kvs k)"
| "read_prop v k = Inr JUndefined"

fun opt_read_prop :: "jsval \<Rightarrow> string \<Rightarrow> jsval" where
  "opt_read_prop (JObj kvs) k = field kvs k"
| "opt_read_prop v k = JUndefined"

fun mapE :: "('a \<Rightarrow> js_error + 'b) \<Rightarrow> 'a list \<Rightarrow> js_error + 'b list" where
  "mapE f [] = Inr []"
| "mapE f (x # xs) =
     (case f x of
        Inl e \<Rightarrow> Inl e
      | Inr y \<Rightarrow> (case mapE f xs of Inl e \<Rightarrow> Inl e | Inr ys \<Rightarrow> Inr (y # ys)))"

text \<open>
  Lines 72 to 74: \<open>times[level].L.map((timeObj) => parseFloat(timeObj.N)).filter((time) =>
  !isNaN(time))\<close>, on the value of \<open>times[level].L\<close>. Only an array has \<open>map\<close>; the
  call on any other value is a TypeError.
\<close>

fun levelTimes :: "jsval \<Rightarrow> js_error + jsnum list" where
  "levelTimes (JArr elems) =
     (case mapE (\<lambda>timeObj. case read_prop timeObj ''N'' of
                              Inl e \<Rightarrow> Inl e
                            | Inr n \<Rightarrow> Inr (parseFloat n)) elems of
        Inl e \<Rightarrow> Inl e
      | Inr ts \<Rightarrow> Inr (filter (\<lambda>time. \<not> isNaN time) ts))"
| "levelTimes v = Inl TypeError"

text \<open>The decimal string of an array index, and what \<open>for (const level in times)\<close>
  runs through: each key with \<open>times[level]\<close>.\<close>

function show_nat :: "nat \<Rightarrow> string" where
  "show_nat n =
     (if n < 10 then [char_of (48 + n)]
      else show_nat (n div 10) @ [char_of (48 + n mod 10)])"
  by pat_completeness auto
termination
  by (relation "measure id") auto

fun for_in :: "jsval \<Rightarrow> (string \<times> jsval) list" where
  "for_in (JObj kvs) = map (\<lambda>level. (level, field kvs level)) (map fst kvs)"
| "for_in (JArr xs) = zip (map show_nat [0..<length xs]) xs"
| "for_in v = []"

text \<open>\<open>fastestTimes[level] = ...\<close>: a key that is there keeps its place.\<close>

fun obj_set :: "(string \<times> 'v) list \<Rightarrow> string \<Rightarrow> 'v \<Rightarrow> (string \<times> 'v) list" where
  "obj_set [] k v = [(k, v)]"
| "obj_set ((k', v') # kvs) k v =
     (if k' = k then (k, v) # kvs else (k', v') # obj_set kvs k v)"

text \<open>The loop of lines 70 to 79, run over the keys that are left; \<open>ft\<close> is the
  object \<open>fastestTimes\<close> built so far.\<close>

fun levels_loop ::
  "(string \<times> jsval) list \<Rightarrow> (string \<times> jsnum list) list \<Rightarrow> js_error + (string \<times> jsnum list) list"
where
  "levels_loop [] ft = Inr ft"
| "levels_loop ((level, v) # rest) ft =
     (if truthy (opt_read_prop v ''L'') then
        (case levelTimes (opt_read_prop v ''L'') of
           Inl e \<Rightarrow> Inl e
         | Inr ts \<Rightarrow> levels_loop rest (obj_set ft level (js_sort num_sub ts)))
      else levels_loop rest ft)"

text \<open>\<open>typeof v === 'object'\<close>.\<close>

fun typeof_object :: "jsval \<Rightarrow> bool" where
  "typeof_object JNull = True"
| "typeof_object (JArr xs) = True"
| "typeof_object (JObj kvs) = True"
| "typeof_object v = False"

text \<open>The function mapped over \<open>players\<close> at lines 65 to 86.\<close>

definition playerTimes :: "jsobj \<Rightarrow> js_error + times_entry" where
  "playerTimes player =
     (let times = field player ''fastest-times''
      in case (if truthy times \<and> typeof_object times then levels_loop (for_in times) []
               else Inr []) of
           Inl e \<Rightarrow> Inl e
         | Inr ft \<Rightarrow> Inr \<lparr>username = field player ''username'', fastestTimes = ft\<rparr>)"

text \<open>
  Lines 35 to 93, from the array \<open>players\<close>: the three statements one after the other,
  each on the array as the one before left it. The result is the array at the end and
  the body, or the error thrown on the way.
\<close>

definition compose :: "jsobj list \<Rightarrow> jsobj list \<times> (js_error + body)" where
  "compose players =
     (let (players1, topCoins) = topCoinsN 10 players;
          (players2, topEnemies) = topEnemiesN 10 players1
      in (players2,
          case mapE playerTimes players2 of
            Inl e \<Rightarrow> Inl e
          | Inr allFastestTimes \<Rightarrow> Inr (Leaderboard topCoins topEnemies allFastestTimes)))"

definition leaderboard_headers :: "(string \<times> string) list" where
  "leaderboard_headers =
     [(''Content-Type'', ''application/json''),
      (''Access-Control-Allow-Origin'', ''*''),
      (''Access-Control-Allow-Methods'', ''GET,OPTIONS''),
      (''Access-Control-Allow-Headers'', ''Content-Type'')]"

text \<open>
  The handler. \<open>scan\<close> is what \<open>await dynamo.scan(params)\<close> does when it is reached:
  it throws, or it gives \<open>data\<close>, of which the handler reads \<open>data.Items\<close>, an array
  of items or undefined (\<open>None\<close>). Every error thrown in the \<open>try\<close> block ends in the
  \<open>catch\<close> branch.
\<close>

definition leaderboard_handler :: "string \<Rightarrow> js_error + jsobj list option \<Rightarrow> response" where
  "leaderboard_handler httpMethod scan =
     (let result =
            (if httpMethod = ''GET'' then
               (case scan of
                  Inl err \<Rightarrow> Inl err
                | Inr None \<Rightarrow> Inl (Error ''No data found in DynamoDB'')
                | Inr (Some players) \<Rightarrow> snd (compose players))
             else Inl (Error (''Unsupported method '' @ [CHR 0x22] @ httpMethod @ [CHR 0x22])))
      in case result of
           Inr b \<Rightarrow> \<lparr>statusCode = JStr ''200'', body = b, headers = Some leaderboard_headers\<rparr>
         | Inl err \<Rightarrow>
             \<lparr>statusCode = JStr ''400'', body = ErrorBody err, headers = Some leaderboard_headers\<rparr>)"

section \<open>The handler that writes a player's statistics\<close>

text \<open>
  The Lambda function of \<open>src/updatePlayerStatsDDB.js\<close>, which overwrites the item of
  a player.

  \<open>event.queryStringParameters || {}\<close> and the destructuring of a parameter: the
  parameters are strings, one that is not there is undefined (\<open>None\<close>).
\<close>

definition qparam :: "(string \<times> string) list option \<Rightarrow> string \<Rightarrow> string option" where
  "qparam qs k = (case qs of None \<Rightarrow> None | Some ps \<Rightarrow> map_of ps k)"

text \<open>\<open>x || "..."\<close> on a parameter, and the string that \<open>parseInt\<close> makes of one.\<close>

definition str_or :: "string option \<Rightarrow> string \<Rightarrow> string" where
  "str_or x d = (case x of None \<Rightarrow> d | Some s \<Rightarrow> if s = [] then d else s)"

definition param_string :: "string option \<Rightarrow> string" where
  "param_string x = (case x of None \<Rightarrow> ''undefined'' | Some s \<Rightarrow> s)"

definition update_headers :: "(string \<times> string) list" where
  "update_headers =
     [(''Content-Type'', ''application/json''),
      (''Access-Control-Allow-Origin'', ''*''),
      (''Access-Control-Allow-Headers'', ''Content-Type''),
      (''Access-Control-Allow-Methods'', ''GET, POST, OPTIONS'')]"

text \<open>The item of lines 50 to 56, from the parameters (\<open>name\<close> is \<open>username\<close>) and
  the two parsed values.\<close>

definition make_item :: "string \<Rightarrow> string option \<Rightarrow> string option \<Rightarrow> jsval \<Rightarrow> jsval \<Rightarrow> jsobj" where
  "make_item name coinsCollected enemiesDefeated parsedLevels parsedFastestTimes =
     [(''username'', JStr name),
      (''coins-collected'',
         js_or (JNum (parseInt_str (param_string coinsCollected))) (JNum (Fin 0))),
      (''enemies-defeated'',
         js_or (JNum (parseInt_str (param_string enemiesDefeated))) (JNum (Fin 0))),
      (''levels-completed'', parsedLevels),
      (''fastest-times'', parsedFastestTimes)]"

definition update_failed :: "js_error \<Rightarrow> response \<times> jsobj option" where
  "update_failed err =
     (\<lparr>statusCode = JNum (Fin 500),
       body = MessageError ''Failed to update player stats.'' err,
       headers = None\<rparr>, None)"

text \<open>
  The handler of \<open>updatePlayerStatsDDB.js\<close>. \<open>JSON.parse\<close> is the engine's and
  \<open>dynamo.put\<close> the store's: \<open>JSON_parse\<close> gives the value a text parses to or the
  error thrown, \<open>put\<close> the error the store throws for an item, if any. The result is
  the response and the item that the store now holds under the user name, if one was
  written. The document client hands an item out on a scan as the value that was put.
\<close>

definition update_handler ::
  "(string \<Rightarrow> js_error + jsval) \<Rightarrow> (jsobj \<Rightarrow> js_error option) \<Rightarrow>
   (string \<times> string) list option \<Rightarrow> response \<times> jsobj option"
where
  "update_handler JSON_parse put qs =
     (case qparam qs ''username'' of
        None \<Rightarrow>
          (\<lparr>statusCode = JNum (Fin 400), body = Message ''Username is required.'',
            headers = None\<rparr>, None)
      | Some name \<Rightarrow>
          if name = [] then
            (\<lparr>statusCode = JNum (Fin 400), body = Message ''Username is required.'',
              headers = None\<rparr>, None)
          else
            (case JSON_parse (str_or (qparam qs ''levelsCompleted'') ''[]'') of
               Inl err \<Rightarrow> update_failed err
             | Inr parsedLevels \<Rightarrow>
                 (case JSON_parse (str_or (qparam qs ''fastestTimes'') ''{}'') of
                    Inl err \<Rightarrow> update_failed err
                  | Inr parsedFastestTimes \<Rightarrow>
                      (let item = make_item name (qparam qs ''coinsCollected'')
                                    (qparam qs ''enemiesDefeated'') parsedLevels parsedFastestTimes
                       in case put item of
                            Some err \<Rightarrow> update_failed err
                          | None \<Rightarrow>
                              (\<lparr>statusCode = JNum (Fin 200),
                                body = MessageData ''Player stats overwritten successfully.'' item,
                                headers = Some update_headers\<rparr>, Some item)))))"

section \<open>Notions of the statements\<close>

text \<open>\<open>a <= b\<close> on numbers: false as soon as one of them is NaN.\<close>

fun num_le :: "jsnum \<Rightarrow> jsnum \<Rightarrow> bool" where
  "num_le NaN b = False"
| "num_le a NaN = False"
| "num_le NegInf b = True"
| "num_le a PosInf = True"
| "num_le (Fin a) (Fin b) = (a \<le> b)"
| "num_le a b = False"

text \<open>
  The tagged-list wire encoding of a level's times, in the words of the specification:
  \<open>{L: [{N: "..."}, ...]}\<close>, one element for each string.
\<close>

definition tagged :: "string list \<Rightarrow> jsval" where
  "tagged strs = JObj [(''L'', JArr (map (\<lambda>s. JObj [(''N'', JStr s)]) strs))]"

text \<open>What the loop stores under a level whose \<open>L\<close> is truthy, when nothing is thrown.\<close>

definition level_result :: "jsval \<Rightarrow> jsnum list" where
  "level_result v =
     (case levelTimes (opt_read_prop v ''L'') of Inr ts \<Rightarrow> js_sort num_sub ts | Inl e \<Rightarrow> [])"

text \<open>The number by which a comparator ranks a player: \<open>player[f] || 0\<close> as a number.\<close>

definition stat :: "string \<Rightarrow> jsobj \<Rightarrow> jsnum" where
  "stat f player = toNumber (js_or (field player f) (JNum (Fin 0)))"

text \<open>A plain numeric array, the form in which a client holds a level's times.\<close>

fun is_number :: "jsval \<Rightarrow> bool" where
  "is_number (JNum n) = True"
| "is_number v = False"

fun numeric_array :: "jsval \<Rightarrow> bool" where
  "numeric_array (JArr xs) = list_all is_number xs"
| "numeric_array v = False"

text \<open>
  A level that the loop can work on: its \<open>L\<close> is not truthy, or it is an array with
  no null and no undefined element.
\<close>

definition level_ok :: "jsval \<Rightarrow> bool" where
  "level_ok v =
     (case opt_read_prop v ''L'' of
        JArr elems \<Rightarrow> list_all (\<lambda>timeObj. timeObj \<noteq> JNull \<and> timeObj \<noteq> JUndefined) elems
      | l \<Rightarrow> \<not> truthy l)"

section \<open>An empty store\<close>

text \<open>
  C9. When the scan gives an empty array of items, the handler answers 200 with the body
  \<open>{topCoins: [], topEnemies: [], allFastestTimes: []}\<close>: three empty arrays and no
  error.
\<close>

theorem empty_scan_gives_empty_leaderboard:
  "compose [] = ([], Inr (Leaderboard [] [] [])) \<and>
   leaderboard_handler ''GET'' (Inr (Some [])) =
     \<lparr>statusCode = JStr ''200'', body = Leaderboard [] [] [],
      headers = Some leaderboard_headers\<rparr>"
  by (simp add: leaderboard_handler_def compose_def topCoinsN_def topEnemiesN_def js_sort_def)

section \<open>The length of a ranking\<close>





section \<open>The conversions on some strings\<close>

lemma conversion_examples:
  "parseFloat_str ''  12.5abc'' = Fin (25 / 2)"
  "parseFloat_str ([CHR 0xC2, CHR 0xA0] @ ''5'') = Fin 5"
  "parseInt_str ([CHR 0xC2, CHR 0xA0] @ ''5'') = Fin 5"
  "parseInt_str ''9007199254740993'' = Fin 9007199254740992"
  "stringToNumber ''0x1f'' = Fin 31"
  "stringToNumber [] = Fin 0"
  by code_simp+

section \<open>Sorting\<close>

lemma set_js_insert: "set (js_insert cmp x ys) = insert x (set ys)"
  by (induction ys) auto

lemma mset_js_insert: "mset (js_insert cmp x ys) = add_mset x (mset ys)"
  by (induction ys) auto

lemma mset_js_sort: "mset (js_sort cmp xs) = mset xs"
  by (induction xs) (simp_all add: js_sort_def mset_js_insert)

lemma set_js_sort: "set (js_sort cmp xs) = set xs"
  using mset_js_sort [of cmp xs] by (metis set_mset_mset)

lemma js_sort_Cons: "js_sort cmp (x # xs) = js_insert cmp x (js_sort cmp xs)"
  by (simp add: js_sort_def)

lemma sorted_wrt_js_insert:
  assumes tot: "\<And>a b. a \<in> A \<Longrightarrow> b \<in> A \<Longrightarrow> le a b \<or> le b a"
    and trans: "\<And>a b c. a \<in> A \<Longrightarrow> b \<in> A \<Longrightarrow> c \<in> A \<Longrightarrow> le a b \<Longrightarrow> le b c \<Longrightarrow> le a c"
    and cmp: "\<And>a b. a \<in> A \<Longrightarrow> b \<in> A \<Longrightarrow> num_pos (cmp a b) \<longleftrightarrow> \<not> le a b"
    and x: "x \<in> A" and ys: "set ys \<subseteq> A" and sorted: "sorted_wrt le ys"
  shows "sorted_wrt le (js_insert cmp x ys)"
  using ys sorted
proof (induction ys)
  case Nil
  then show ?case by simp
next
  case (Cons y ys)
  then have y: "y \<in> A" and ysA: "set ys \<subseteq> A" and yle: "\<forall>z\<in>set ys. le y z"
    and srt: "sorted_wrt le ys" by auto
  show ?case
  proof (cases "num_pos (cmp x y)")
    case True
    then have "le y x" using cmp [OF x y] tot [OF x y] by blast
    moreover have "sorted_wrt le (js_insert cmp x ys)" using Cons.IH ysA srt by blast
    ultimately show ?thesis using True yle by (simp add: set_js_insert)
  next
    case False
    then have xy: "le x y" using cmp [OF x y] by blast
    have "\<forall>z\<in>set ys. le x z"
    proof
      fix z assume z: "z \<in> set ys"
      then have "z \<in> A" using ysA by blast
      then show "le x z" using trans [OF x y _ xy] yle z by blast
    qed
    then show ?thesis using False xy yle srt by simp
  qed
qed

lemma sorted_wrt_js_sort:
  assumes tot: "\<And>a b. a \<in> A \<Longrightarrow> b \<in> A \<Longrightarrow> le a b \<or> le b a"
    and trans: "\<And>a b c. a \<in> A \<Longrightarrow> b \<in> A \<Longrightarrow> c \<in> A \<Longrightarrow> le a b \<Longrightarrow> le b c \<Longrightarrow> le a c"
    and cmp: "\<And>a b. a \<in> A \<Longrightarrow> b \<in> A \<Longrightarrow> num_pos (cmp a b) \<longleftrightarrow> \<not> le a b"
    and xs: "set xs \<subseteq> A"
  shows "sorted_wrt le (js_sort cmp xs)"
  using xs
proof (induction xs)
  case Nil
  then show ?case by (simp add: js_sort_def)
next
  case (Cons x xs)
  then have "sorted_wrt le (js_sort cmp xs)" and "x \<in> A" and "set (js_sort cmp xs) \<subseteq> A"
    by (auto simp: set_js_sort)
  then have ih: "sorted_wrt le (js_sort cmp xs)" and x: "x \<in> A"
    and sub: "set (js_sort cmp xs) \<subseteq> A" by blast+
  show ?case
    unfolding js_sort_Cons
  proof (rule sorted_wrt_js_insert [where A = A and le = le])
    show "x \<in> A" by (rule x)
    show "set (js_sort cmp xs) \<subseteq> A" by (rule sub)
    show "sorted_wrt le (js_sort cmp xs)" by (rule ih)
  qed (erule (1) tot, erule (4) trans, erule (1) cmp)
qed

lemma num_le_total: "\<not> isNaN a \<Longrightarrow> \<not> isNaN b \<Longrightarrow> num_le a b \<or> num_le b a"
  by (cases a; cases b) auto

lemma num_le_trans: "num_le a b \<Longrightarrow> num_le b c \<Longrightarrow> num_le a c"
  by (cases a; cases b; cases c) auto

lemma num_pos_sub: "\<not> isNaN a \<Longrightarrow> \<not> isNaN b \<Longrightarrow> num_pos (num_sub a b) \<longleftrightarrow> \<not> num_le a b"
  by (cases a; cases b) auto

lemma sorted_times: 
  assumes "\<forall>t\<in>set ts. \<not> isNaN t"
  shows "sorted_wrt num_le (js_sort num_sub ts)"
proof (rule sorted_wrt_js_sort [where A = "{t. \<not> isNaN t}"])
  show "set ts \<subseteq> {t. \<not> isNaN t}" using assms by blast
qed (simp_all add: num_le_total num_pos_sub, erule (1) num_le_trans)

lemma mapE_tagged:
  "mapE (\<lambda>timeObj. case read_prop timeObj ''N'' of Inl e \<Rightarrow> Inl e | Inr n \<Rightarrow> Inr (parseFloat n))
        (map (\<lambda>s. JObj [(''N'', JStr s)]) strs) = Inr (map parseFloat_str strs)"
  by (induction strs) (simp_all add: field_def)

lemma levelTimes_tagged:
  "opt_read_prop (tagged strs) ''L'' = JArr (map (\<lambda>s. JObj [(''N'', JStr s)]) strs)"
  "levelTimes (opt_read_prop (tagged strs) ''L'') =
     Inr (filter (\<lambda>t. \<not> isNaN t) (map parseFloat_str strs))"
  by (simp_all add: tagged_def field_def mapE_tagged)

lemma level_result_tagged:
  "level_result (tagged strs) = js_sort num_sub (filter (\<lambda>t. \<not> isNaN t) (map parseFloat_str strs))"
  by (simp add: level_result_def levelTimes_tagged(2))

lemma field_distinct:
  "distinct (map fst kvs) \<Longrightarrow> (k, v) \<in> set kvs \<Longrightarrow> field kvs k = v"
  by (simp add: field_def)

lemma for_in_distinct: "distinct (map fst kvs) \<Longrightarrow> for_in (JObj kvs) = kvs"
proof -
  assume d: "distinct (map fst kvs)"
  have "map (\<lambda>p. (fst p, field kvs (fst p))) kvs = map (\<lambda>p. p) kvs"
  proof (rule map_cong [OF refl])
    fix p assume "p \<in> set kvs"
    then have "field kvs (fst p) = snd p"
      using field_distinct [OF d, of "fst p" "snd p"] by simp
    then show "(fst p, field kvs (fst p)) = p" by (simp add: prod_eq_iff)
  qed
  then show ?thesis by (simp add: comp_def)
qed

lemma obj_set_fresh: "k \<notin> fst ` set ft \<Longrightarrow> obj_set ft k v = ft @ [(k, v)]"
  by (induction ft) auto

lemma levels_loop_closed_form:
  assumes "distinct (map fst kvs)"
    and "fst ` set ft \<inter> fst ` set kvs = {}"
    and "\<forall>(level, v) \<in> set kvs. truthy (opt_read_prop v ''L'') \<longrightarrow>
           (\<exists>ts. levelTimes (opt_read_prop v ''L'') = Inr ts)"
  shows "levels_loop kvs ft =
           Inr (ft @ map (\<lambda>(level, v). (level, level_result v))
                      (filter (\<lambda>(level, v). truthy (opt_read_prop v ''L'')) kvs))"
  using assms
proof (induction kvs arbitrary: ft)
  case Nil
  then show ?case by simp
next
  case (Cons kv kvs)
  obtain level v where kv: "kv = (level, v)" by (cases kv)
  have d: "distinct (map fst kvs)" and fresh: "level \<notin> fst ` set kvs"
    and lft: "level \<notin> fst ` set ft" and disj: "fst ` set ft \<inter> fst ` set kvs = {}"
    using Cons.prems(1,2) kv by auto
  have rest: "\<forall>(level, v) \<in> set kvs. truthy (opt_read_prop v ''L'') \<longrightarrow>
           (\<exists>ts. levelTimes (opt_read_prop v ''L'') = Inr ts)"
    using Cons.prems(3) by simp
  show ?case
  proof (cases "truthy (opt_read_prop v ''L'')")
    case False
    then show ?thesis using Cons.IH [OF d disj rest] kv by simp
  next
    case True
    then obtain ts where ts: "levelTimes (opt_read_prop v ''L'') = Inr ts"
      using Cons.prems(3) kv by auto
    let ?ft = "ft @ [(level, js_sort num_sub ts)]"
    have "fst ` set ?ft \<inter> fst ` set kvs = {}" using disj fresh by auto
    from Cons.IH [OF d this rest] show ?thesis
      using True ts kv lft by (simp add: obj_set_fresh level_result_def)
  qed
qed

text \<open>
  The part of the normalization that holds. Take a record whose \<open>fastest-times\<close> is
  an object in which every level either holds the tagged form \<open>{L: [{N: "..."}, ...]}\<close>
  or has no truthy \<open>L\<close>. Then the function mapped over the players raises nothing; the
  levels of its result are the levels with a truthy \<open>L\<close>, in their order; under a
  tagged level stand exactly the values that \<open>parseFloat\<close> reads from the strings and
  that are not NaN, in ascending order, and so the empty array when no string parses; and
  a level without a truthy \<open>L\<close> is not in the result.
\<close>

theorem tagged_times_normalized:
  assumes times: "field player ''fastest-times'' = JObj kvs"
    and dist: "distinct (map fst kvs)"
    and shape: "\<forall>(level, v) \<in> set kvs.
                  (\<exists>strs. v = tagged strs) \<or> \<not> truthy (opt_read_prop v ''L'')"
  shows "\<exists>ft. playerTimes player =
                 Inr \<lparr>username = field player ''username'', fastestTimes = ft\<rparr> \<and>
      map fst ft = map fst (filter (\<lambda>(level, v). truthy (opt_read_prop v ''L'')) kvs) \<and>
      (\<forall>level strs. (level, tagged strs) \<in> set kvs \<longrightarrow>
         (\<exists>ts. map_of ft level = Some ts \<and> sorted_wrt num_le ts \<and>
               mset ts = mset (filter (\<lambda>t. \<not> isNaN t) (map parseFloat_str strs)) \<and>
               ((\<forall>s \<in> set strs. isNaN (parseFloat_str s)) \<longrightarrow> ts = []))) \<and>
      (\<forall>level v. (level, v) \<in> set kvs \<and> \<not> truthy (opt_read_prop v ''L'') \<longrightarrow>
         map_of ft level = None)"
proof -
  let ?P = "\<lambda>(level, v). truthy (opt_read_prop v ''L'')"
  let ?ft = "map (\<lambda>(level, v). (level, level_result v)) (filter ?P kvs)"
  have ok: "\<forall>(level, v) \<in> set kvs. truthy (opt_read_prop v ''L'') \<longrightarrow>
              (\<exists>ts. levelTimes (opt_read_prop v ''L'') = Inr ts)"
    using shape levelTimes_tagged(2) by fastforce
  have loop: "levels_loop kvs [] = Inr ?ft"
    using levels_loop_closed_form [OF dist _ ok, of "[]"] by simp
  have run: "playerTimes player =
               Inr \<lparr>username = field player ''username'', fastestTimes = ?ft\<rparr>"
    by (simp add: playerTimes_def times for_in_distinct [OF dist] loop del: for_in.simps)
  have keys: "map fst ?ft = map fst (filter ?P kvs)"
    by (simp add: comp_def case_prod_unfold)
  have dft: "distinct (map fst ?ft)"
    unfolding keys using dist by (simp add: distinct_map_filter)
  have tagged_case: "\<exists>ts. map_of ?ft level = Some ts \<and> sorted_wrt num_le ts \<and>
               mset ts = mset (filter (\<lambda>t. \<not> isNaN t) (map parseFloat_str strs)) \<and>
               ((\<forall>s \<in> set strs. isNaN (parseFloat_str s)) \<longrightarrow> ts = [])"
    if mem: "(level, tagged strs) \<in> set kvs" for level strs
  proof -
    let ?ts = "js_sort num_sub (filter (\<lambda>t. \<not> isNaN t) (map parseFloat_str strs))"
    have "(level, tagged strs) \<in> set (filter ?P kvs)"
      using mem by (simp add: levelTimes_tagged(1))
    then have "(level, level_result (tagged strs)) \<in> set ?ft" by force
    then have "map_of ?ft level = Some ?ts"
      using dft by (simp add: level_result_tagged)
    moreover have "sorted_wrt num_le ?ts" by (rule sorted_times) simp
    moreover have "mset ?ts = mset (filter (\<lambda>t. \<not> isNaN t) (map parseFloat_str strs))"
      by (rule mset_js_sort)
    moreover have "(\<forall>s \<in> set strs. isNaN (parseFloat_str s)) \<longrightarrow> ?ts = []"
      by (simp add: js_sort_def filter_empty_conv)
    ultimately show ?thesis by blast
  qed
  have other_case: "map_of ?ft level = None"
    if mem: "(level, v) \<in> set kvs" and no: "\<not> truthy (opt_read_prop v ''L'')" for level v
  proof -
    have "level \<notin> fst ` set (filter ?P kvs)"
    proof
      assume "level \<in> fst ` set (filter ?P kvs)"
      then obtain v' where v': "(level, v') \<in> set kvs" and t: "truthy (opt_read_prop v' ''L'')"
        by auto
      have "v' = v" using dist mem v' by (meson eq_key_imp_eq_value)
      then show False using t no by simp
    qed
    then have "level \<notin> fst ` set ?ft" using keys by (metis set_map)
    then show ?thesis by (simp add: map_of_eq_None_iff)
  qed
  show ?thesis
    using run keys tagged_case other_case by blast
qed

theorem tagged_times_example:
  "field [(''username'', JStr ''a''),
          (''fastest-times'', JObj [(''level1'', tagged [''12.5'', ''bad'', ''3.2''])])]
         ''fastest-times'' = JObj [(''level1'', tagged [''12.5'', ''bad'', ''3.2''])] \<and>
   distinct (map fst [(''level1'', tagged [''12.5'', ''bad'', ''3.2''])]) \<and>
   tagged [''12.5'', ''bad'', ''3.2''] =
     JObj [(''L'', JArr [JObj [(''N'', JStr ''12.5'')], JObj [(''N'', JStr ''bad'')],
                        JObj [(''N'', JStr ''3.2'')]])] \<and>
   playerTimes [(''username'', JStr ''a''),
                (''fastest-times'', JObj [(''level1'', tagged [''12.5'', ''bad'', ''3.2''])])] =
     Inr \<lparr>username = JStr ''a'',
          fastestTimes = [(''level1'', [to_double (16 / 5), to_double (25 / 2)])]\<rparr>"
proof -
  let ?kvs = "[(''level1'', tagged [''12.5'', ''bad'', ''3.2''])]"
  let ?player = "[(''username'', JStr ''a''), (''fastest-times'', JObj ?kvs)]"
  have h1: "field ?player ''fastest-times'' = JObj ?kvs" by (simp add: field_def)
  have h2: "distinct (map fst ?kvs)" by simp
  have h3: "\<forall>(level, v) \<in> set ?kvs.
              (\<exists>strs. v = tagged strs) \<or> \<not> truthy (opt_read_prop v ''L'')" by auto
  have d1: "to_double (16 / 5) = Fin (3602879701896397 / 1125899906842624)" by code_simp
  have d2: "to_double (25 / 2) = Fin (25 / 2)" by code_simp
  have p1: "parseFloat_str ''12.5'' = Fin (25 / 2)" by code_simp
  have p2: "parseFloat_str ''bad'' = NaN" by code_simp
  have p3: "parseFloat_str ''3.2'' = Fin (3602879701896397 / 1125899906842624)" by code_simp
  have srt: "level_result (tagged [''12.5'', ''bad'', ''3.2'']) =
               [to_double (16 / 5), to_double (25 / 2)]"
    by (simp add: level_result_tagged p1 p2 p3 d1 d2 js_sort_def)
  from tagged_times_normalized [OF h1 h2 h3]
  obtain ft where run: "playerTimes ?player =
        Inr \<lparr>username = field ?player ''username'', fastestTimes = ft\<rparr>"
    by blast
  have "playerTimes ?player =
        Inr \<lparr>username = JStr ''a'',
             fastestTimes = [(''level1'', level_result (tagged [''12.5'', ''bad'', ''3.2'']))]\<rparr>"
    using levels_loop_closed_form [of ?kvs "[]"]
    by (simp add: playerTimes_def field_def levelTimes_tagged del: for_in.simps levels_loop.simps
          add: for_in_distinct)
  with run srt show ?thesis by (simp add: field_def tagged_def)
qed

section \<open>From the write path to the leaderboard\<close>

lemma levels_loop_skips:
  "\<forall>(level, v) \<in> set kvs. \<not> truthy (opt_read_prop v ''L'') \<Longrightarrow> levels_loop kvs ft = Inr ft"
  by (induction kvs arbitrary: ft) auto

lemma numeric_array_no_L: "numeric_array v \<Longrightarrow> opt_read_prop v ''L'' = JUndefined"
  by (cases v) simp_all

lemma field_in_set: "k \<in> fst ` set kvs \<Longrightarrow> (k, field kvs k) \<in> set kvs"
  by (auto simp: field_def weak_map_of_SomeI map_of_SomeD split: option.splits)
     (metis map_of_eq_None_iff image_eqI fst_conv)

lemma playerTimes_plain:
  assumes "field player ''fastest-times'' = JObj kvs"
    and "\<forall>(level, v) \<in> set kvs. numeric_array v"
  shows "playerTimes player = Inr \<lparr>username = field player ''username'', fastestTimes = []\<rparr>"
proof -
  have "\<forall>(level, v) \<in> set (for_in (JObj kvs)). \<not> truthy (opt_read_prop v ''L'')"
  proof (clarify)
    fix level v assume "(level, v) \<in> set (for_in (JObj kvs))" and t: "truthy (opt_read_prop v ''L'')"
    then have "level \<in> fst ` set kvs" and "v = field kvs level" by auto
    then have "(level, v) \<in> set kvs" using field_in_set by blast
    then have "numeric_array v" using assms(2) by blast
    then show False using t by (simp add: numeric_array_no_L)
  qed
  then have "levels_loop (for_in (JObj kvs)) [] = Inr []" by (rule levels_loop_skips)
  then show ?thesis
    by (simp add: playerTimes_def assms(1) del: for_in.simps)
qed

lemma mapE_Inr_member:
  "mapE f xs = Inr ys \<Longrightarrow> x \<in> set xs \<Longrightarrow> f x = Inr y \<Longrightarrow> y \<in> set ys"
  by (induction xs arbitrary: ys) (auto split: sum.splits)

lemma mapE_total:
  "\<forall>x \<in> set xs. \<exists>y. f x = Inr y \<Longrightarrow> \<exists>ys. mapE f xs = Inr ys"
  by (induction xs) (auto split: sum.splits)

lemma compose_players: "set (fst (compose players)) = set players"
  by (simp add: compose_def topCoinsN_def topEnemiesN_def Let_def set_js_sort)

lemma compose_times:
  "snd (compose players) = Inr (Leaderboard tc te ts) \<Longrightarrow>
   mapE playerTimes (fst (compose players)) = Inr ts"
  by (auto simp: compose_def topCoinsN_def topEnemiesN_def Let_def split: sum.splits)

lemma update_handler_item:
  assumes "update_handler JSON_parse put qs = (resp, Some item)"
  shows "\<exists>name parsedLevels parsedFastestTimes.
           JSON_parse (str_or (qparam qs ''fastestTimes'') ''{}'') = Inr parsedFastestTimes \<and>
           item = make_item name (qparam qs ''coinsCollected'') (qparam qs ''enemiesDefeated'')
                    parsedLevels parsedFastestTimes"
  using assms
  by (auto simp: update_handler_def update_failed_def Let_def
           split: option.splits if_splits sum.splits)

text \<open>
  C10. Let the handler that writes the statistics store an item for a request whose
  \<open>fastestTimes\<close> parameter parses to an object of plain numeric arrays, such as
  \<open>{"level1": [3.2]}\<close>. The item holds that object as it is, without the tagged
  wrapper; the leaderboard skips every level of it, so the player's \<open>fastestTimes\<close>
  is the empty object, in every leaderboard built from a scan that contains the item.
\<close>

theorem plain_times_are_lost:
  assumes written: "update_handler JSON_parse put qs = (resp, Some item)"
    and parsed: "JSON_parse (str_or (qparam qs ''fastestTimes'') ''{}'') = Inr (JObj kvs)"
    and plain: "\<forall>(level, v) \<in> set kvs. numeric_array v"
  shows "field item ''fastest-times'' = JObj kvs \<and>
         playerTimes item = Inr \<lparr>username = field item ''username'', fastestTimes = []\<rparr> \<and>
         (\<forall>players tc te ts.
            item \<in> set players \<and> snd (compose players) = Inr (Leaderboard tc te ts) \<longrightarrow>
            \<lparr>username = field item ''username'', fastestTimes = []\<rparr> \<in> set ts)"
proof -
  from update_handler_item [OF written] parsed
  obtain name parsedLevels where
    item: "item = make_item name (qparam qs ''coinsCollected'') (qparam qs ''enemiesDefeated'')
                    parsedLevels (JObj kvs)"
    by auto
  then have stored: "field item ''fastest-times'' = JObj kvs"
    by (simp add: make_item_def field_def)
  have lost: "playerTimes item =
                Inr \<lparr>username = field item ''username'', fastestTimes = []\<rparr>"
    using playerTimes_plain [OF stored plain] .
  have "\<lparr>username = field item ''username'', fastestTimes = []\<rparr> \<in> set ts"
    if "item \<in> set players" and "snd (compose players) = Inr (Leaderboard tc te ts)"
    for players tc te ts
    using mapE_Inr_member [OF compose_times [OF that(2)] _ lost] that(1)
    by (simp add: compose_players)
  with stored lost show ?thesis by blast
qed

theorem plain_times_example:
  "update_handler
     (\<lambda>s. if s = ''[]'' then Inr (JArr [])
          else if s = ''{'' @ [CHR 0x22] @ ''level1'' @ [CHR 0x22] @ '':[3.2]}''
               then Inr (JObj [(''level1'', JArr [JNum (Fin (16 / 5))])])
          else Inl SyntaxError)
     (\<lambda>item. None)
     (Some [(''username'', ''a''),
            (''fastestTimes'', ''{'' @ [CHR 0x22] @ ''level1'' @ [CHR 0x22] @ '':[3.2]}'')]) =
   (\<lparr>statusCode = JNum (Fin 200),
     body = MessageData ''Player stats overwritten successfully.''
              [(''username'', JStr ''a''), (''coins-collected'', JNum (Fin 0)),
               (''enemies-defeated'', JNum (Fin 0)), (''levels-completed'', JArr []),
               (''fastest-times'', JObj [(''level1'', JArr [JNum (Fin (16 / 5))])])],
     headers = Some update_headers\<rparr>,
    Some [(''username'', JStr ''a''), (''coins-collected'', JNum (Fin 0)),
          (''enemies-defeated'', JNum (Fin 0)), (''levels-completed'', JArr []),
          (''fastest-times'', JObj [(''level1'', JArr [JNum (Fin (16 / 5))])])]) \<and>
   playerTimes [(''username'', JStr ''a''), (''coins-collected'', JNum (Fin 0)),
                (''enemies-defeated'', JNum (Fin 0)), (''levels-completed'', JArr []),
                (''fastest-times'', JObj [(''level1'', JArr [JNum (Fin (16 / 5))])])] =
     Inr \<lparr>username = JStr ''a'', fastestTimes = []\<rparr>"
proof -
  let ?ft = "''{'' @ [CHR 0x22] @ ''level1'' @ [CHR 0x22] @ '':[3.2]}''"
  let ?parse = "\<lambda>s. if s = ''[]'' then Inr (JArr [])
          else if s = ?ft then Inr (JObj [(''level1'', JArr [JNum (Fin (16 / 5))])])
          else Inl SyntaxError"
  let ?qs = "Some [(''username'', ''a''), (''fastestTimes'', ?ft)]"
  let ?kvs = "[(''level1'', JArr [JNum (Fin (16 / 5))])]"
  let ?item = "[(''username'', JStr ''a''), (''coins-collected'', JNum (Fin 0)),
          (''enemies-defeated'', JNum (Fin 0)), (''levels-completed'', JArr []),
          (''fastest-times'', JObj ?kvs)]"
  let ?resp = "\<lparr>statusCode = JNum (Fin 200),
     body = MessageData ''Player stats overwritten successfully.'' ?item,
     headers = Some update_headers\<rparr>"
  have nan: "parseInt_str ''undefined'' = NaN" by code_simp
  have h1: "update_handler ?parse (\<lambda>item. None) ?qs = (?resp, Some ?item)"
    by (simp add: update_handler_def qparam_def str_or_def make_item_def param_string_def
          nan js_or_def Let_def)
  have h2: "?parse (str_or (qparam ?qs ''fastestTimes'') ''{}'') = Inr (JObj ?kvs)"
    by (simp add: qparam_def str_or_def)
  have h3: "\<forall>(level, v) \<in> set ?kvs. numeric_array v" by simp
  from plain_times_are_lost [OF h1 h2 h3]
  have "playerTimes ?item = Inr \<lparr>username = field ?item ''username'', fastestTimes = []\<rparr>"
    by blast
  then show ?thesis using h1 by (simp add: field_def)
qed

section \<open>Statistics that are absent\<close>

lemma cmp_is_stat:
  "coinsCmp a b = num_sub (stat ''coins-collected'' b) (stat ''coins-collected'' a)"
  "enemiesCmp a b = num_sub (stat ''enemies-defeated'' b) (stat ''enemies-defeated'' a)"
  by (simp_all add: coinsCmp_def enemiesCmp_def stat_def js_sub_def)

lemma sorted_descending:
  assumes "\<forall>p \<in> set ps. \<not> isNaN (stat f p)"
  shows "sorted_wrt (\<lambda>p q. num_le (stat f q) (stat f p))
           (js_sort (\<lambda>a b. num_sub (stat f b) (stat f a)) ps)"
proof (rule sorted_wrt_js_sort [where A = "{p. \<not> isNaN (stat f p)}"])
  show "set ps \<subseteq> {p. \<not> isNaN (stat f p)}" using assms by blast
qed (simp_all add: num_le_total num_pos_sub, erule (1) num_le_trans)



lemma handler_ok:
  assumes "\<forall>p \<in> set players. \<exists>t. playerTimes p = Inr t"
  shows "statusCode (leaderboard_handler ''GET'' (Inr (Some players))) = JStr ''200''"
proof -
  have "\<forall>p \<in> set (fst (compose players)). \<exists>t. playerTimes p = Inr t"
    using assms by (simp add: compose_players)
  then obtain ts where "mapE playerTimes (fst (compose players)) = Inr ts"
    using mapE_total by blast
  then show ?thesis
    by (simp add: leaderboard_handler_def compose_def topCoinsN_def topEnemiesN_def Let_def)
qed





section \<open>Where the handler departs from the specification\<close>

text \<open>
  C6. A scan that fails during a leaderboard request ends in the \<open>catch\<close> branch,
  which answers with the status \<open>'400'\<close>: a client error, where the specification
  and the handler that writes the statistics have a server error.
\<close>

theorem store_failure_answers_400:
  "leaderboard_handler ''GET'' (Inl (StoreError msg)) =
     \<lparr>statusCode = JStr ''400'', body = ErrorBody (StoreError msg),
      headers = Some leaderboard_headers\<rparr>"
  by (simp add: leaderboard_handler_def)

text \<open>
  C1. The sort for the coins ranking reorders the array \<open>players\<close> itself, and the
  sort for the enemies ranking starts from that order. Two players with the same number
  of enemies, \<open>a\<close> scanned before \<open>b\<close>, appear as \<open>b\<close>, \<open>a\<close> in \<open>topEnemies\<close>
  when \<open>b\<close> has more coins.
\<close>

theorem enemies_ties_follow_coins_order:
  "snd (compose
     [[(''username'', JStr ''a''), (''coins-collected'', JNum (Fin 1)),
       (''enemies-defeated'', JNum (Fin 5))],
      [(''username'', JStr ''b''), (''coins-collected'', JNum (Fin 2)),
       (''enemies-defeated'', JNum (Fin 5))]]) =
   Inr (Leaderboard
          [\<lparr>username = JStr ''b'', coins = JNum (Fin 2)\<rparr>,
           \<lparr>username = JStr ''a'', coins = JNum (Fin 1)\<rparr>]
          [\<lparr>username = JStr ''b'', enemies = JNum (Fin 5)\<rparr>,
           \<lparr>username = JStr ''a'', enemies = JNum (Fin 5)\<rparr>]
          [\<lparr>username = JStr ''b'', fastestTimes = []\<rparr>,
           \<lparr>username = JStr ''a'', fastestTimes = []\<rparr>])"
  by (simp add: compose_def topCoinsN_def topEnemiesN_def js_sort_def coinsCmp_def
        enemiesCmp_def coinsEntry_def enemiesEntry_def js_or_def js_sub_def field_def
        playerTimes_def)

text \<open>
  C4. \<open>allFastestTimes\<close> is mapped over the array as the two sorts left it: its
  entries come in descending order of enemies, not in the order of the scan.
\<close>

theorem times_follow_enemies_order:
  "leaderboard_handler ''GET'' (Inr (Some
     [[(''username'', JStr ''a''), (''enemies-defeated'', JNum (Fin 1))],
      [(''username'', JStr ''b''), (''enemies-defeated'', JNum (Fin 2)),
       (''fastest-times'', JObj [(''level1'', tagged [''3.2''])])]])) =
   \<lparr>statusCode = JStr ''200'',
    body = Leaderboard
          [\<lparr>username = JStr ''a'', coins = JNum (Fin 0)\<rparr>,
           \<lparr>username = JStr ''b'', coins = JNum (Fin 0)\<rparr>]
          [\<lparr>username = JStr ''b'', enemies = JNum (Fin 2)\<rparr>,
           \<lparr>username = JStr ''a'', enemies = JNum (Fin 1)\<rparr>]
          [\<lparr>username = JStr ''b'', fastestTimes = [(''level1'', [to_double (16 / 5)])]\<rparr>,
           \<lparr>username = JStr ''a'', fastestTimes = []\<rparr>],
    headers = Some leaderboard_headers\<rparr>"
proof -
  have "parseFloat_str ''3.2'' = Fin (3602879701896397 / 1125899906842624)"
    and "to_double (16 / 5) = Fin (3602879701896397 / 1125899906842624)" by code_simp+
  then show ?thesis
    by (simp add: leaderboard_handler_def compose_def topCoinsN_def topEnemiesN_def js_sort_def
          coinsCmp_def enemiesCmp_def coinsEntry_def enemiesEntry_def js_or_def js_sub_def
          field_def playerTimes_def tagged_def)
qed

text \<open>
  C5. Building the leaderboard changes the array it is given: afterwards the array is
  in the order of the last sort.
\<close>

theorem compose_sorts_players_in_place:
  "fst (compose
     [[(''username'', JStr ''a''), (''coins-collected'', JNum (Fin 1))],
      [(''username'', JStr ''b''), (''coins-collected'', JNum (Fin 2))]]) =
     [[(''username'', JStr ''b''), (''coins-collected'', JNum (Fin 2))],
      [(''username'', JStr ''a''), (''coins-collected'', JNum (Fin 1))]]"
  by (simp add: compose_def topCoinsN_def topEnemiesN_def js_sort_def coinsCmp_def
        enemiesCmp_def js_or_def js_sub_def field_def)

text \<open>
  C3. The normalization does not discard an element that is null, and does not skip a
  level whose \<open>L\<close> is truthy and not an array: in both cases the function mapped over
  the players raises a TypeError, and the request is answered with \<open>'400'\<close>.
\<close>

theorem null_element_or_bare_L_raises:
  "playerTimes
     [(''username'', JStr ''a''),
      (''fastest-times'',
         JObj [(''level1'', JObj [(''L'', JArr [JObj [(''N'', JStr ''12.5'')], JNull,
                                                JObj [(''N'', JStr ''3.2'')]])])])] =
     Inl TypeError \<and>
   playerTimes
     [(''username'', JStr ''a''),
      (''fastest-times'',
         JObj [(''level1'', tagged [''12.5'', ''bad'', ''3.2'']),
               (''level2'', JObj [(''L'', JStr ''x'')])])] = Inl TypeError \<and>
   statusCode (leaderboard_handler ''GET'' (Inr (Some
     [[(''username'', JStr ''a''),
       (''fastest-times'',
          JObj [(''level1'', tagged [''12.5'', ''bad'', ''3.2'']),
                (''level2'', JObj [(''L'', JStr ''x'')])])]]))) = JStr ''400''"
proof -
  have "parseFloat_str ''12.5'' = Fin (25 / 2)" and "parseFloat_str ''bad'' = NaN"
    and "parseFloat_str ''3.2'' = Fin (3602879701896397 / 1125899906842624)"
    by code_simp+
  then show ?thesis
    by (simp add: leaderboard_handler_def compose_def topCoinsN_def topEnemiesN_def js_sort_def
          field_def playerTimes_def tagged_def)
qed

text \<open>
  C2. A level whose \<open>L\<close> is truthy and not an array, or is an array with a null in
  it, raises a TypeError in the function mapped over the players; the error leaves the
  \<open>try\<close> block and the whole request is answered with \<open>'400'\<close>, the well-formed
  players included.
\<close>

theorem corrupt_level_fails_whole_request:
  "leaderboard_handler ''GET'' (Inr (Some
     [[(''username'', JStr ''a''), (''coins-collected'', JNum (Fin 1)),
       (''fastest-times'', JObj [(''level1'', tagged [''3.2''])])],
      [(''username'', JStr ''b''), (''coins-collected'', JNum (Fin 2)),
       (''fastest-times'', JObj [(''level1'', JObj [(''L'', JArr [JNull])])])]])) =
   \<lparr>statusCode = JStr ''400'', body = ErrorBody TypeError,
    headers = Some leaderboard_headers\<rparr> \<and>
   playerTimes [(''username'', JStr ''b''),
                (''fastest-times'', JObj [(''level1'', JObj [(''L'', JStr ''x'')])])] =
     Inl TypeError"
proof -
  have "parseFloat_str ''3.2'' = Fin (3602879701896397 / 1125899906842624)"
    and "to_double (16 / 5) = Fin (3602879701896397 / 1125899906842624)" by code_simp+
  then show ?thesis
    by (simp add: leaderboard_handler_def compose_def topCoinsN_def topEnemiesN_def js_sort_def
          coinsCmp_def enemiesCmp_def coinsEntry_def enemiesEntry_def js_or_def js_sub_def
          field_def playerTimes_def tagged_def)
qed

section \<open>What each step does on the array it is given\<close>

lemma filter_js_insert:
  "(\<And>y. y \<in> set ys \<Longrightarrow> P x \<Longrightarrow> P y \<Longrightarrow> \<not> num_pos (cmp x y)) \<Longrightarrow>
   filter P (js_insert cmp x ys) = filter P (x # ys)"
  by (induction ys) auto

lemma filter_js_sort:
  assumes "\<And>x y. P x \<Longrightarrow> P y \<Longrightarrow> \<not> num_pos (cmp x y)"
  shows "filter P (js_sort cmp xs) = filter P xs"
proof (induction xs)
  case Nil
  then show ?case by (simp add: js_sort_def)
next
  case (Cons x xs)
  have "filter P (js_insert cmp x (js_sort cmp xs)) = filter P (x # js_sort cmp xs)"
    by (rule filter_js_insert) (rule assms)
  with Cons show ?case by (simp add: js_sort_Cons)
qed

lemma num_sub_self_not_pos: "\<not> num_pos (num_sub k k)"
  by (cases k) auto

lemma stable_by_stat:
  "filter (\<lambda>p. stat f p = k) (js_sort (\<lambda>a b. num_sub (stat f b) (stat f a)) ps) =
   filter (\<lambda>p. stat f p = k) ps"
  by (rule filter_js_sort) (simp add: num_sub_self_not_pos)

text \<open>
  Each ranking, taken on its own as a function of the array it is given: when the fields
  convert to numbers, the entries come in descending order of the value, and the sort
  keeps the players of equal value in the order of that array. The scenario of the
  specification, with \<open>n = 2\<close>, is the example.
\<close>

theorem ranking_sorted_and_stable:
  assumes coins_ok: "\<forall>p \<in> set players. \<not> isNaN (stat ''coins-collected'' p)"
    and enemies_ok: "\<forall>p \<in> set players. \<not> isNaN (stat ''enemies-defeated'' p)"
  shows
    "sorted_wrt (\<lambda>e e'. num_le (toNumber (coins e')) (toNumber (coins e)))
       (snd (topCoinsN n players)) \<and>
     (\<forall>k. filter (\<lambda>p. stat ''coins-collected'' p = k) (fst (topCoinsN n players)) =
          filter (\<lambda>p. stat ''coins-collected'' p = k) players) \<and>
     sorted_wrt (\<lambda>e e'. num_le (toNumber (enemies e')) (toNumber (enemies e)))
       (snd (topEnemiesN n players)) \<and>
     (\<forall>k. filter (\<lambda>p. stat ''enemies-defeated'' p = k) (fst (topEnemiesN n players)) =
          filter (\<lambda>p. stat ''enemies-defeated'' p = k) players)"
proof -
  have cv: "toNumber (coins (coinsEntry p)) = stat ''coins-collected'' p"
    and ev: "toNumber (enemies (enemiesEntry p)) = stat ''enemies-defeated'' p" for p
    by (simp_all add: coinsEntry_def enemiesEntry_def stat_def)
  have "sorted_wrt (\<lambda>p q. num_le (stat ''coins-collected'' q) (stat ''coins-collected'' p))
          (take n (js_sort coinsCmp players))"
    using sorted_descending [OF coins_ok]
    by (simp add: cmp_is_stat [abs_def] sorted_wrt_take)
  then have c: "sorted_wrt (\<lambda>e e'. num_le (toNumber (coins e')) (toNumber (coins e)))
       (snd (topCoinsN n players))"
    by (simp add: topCoinsN_def Let_def sorted_wrt_map cv)
  have "sorted_wrt (\<lambda>p q. num_le (stat ''enemies-defeated'' q) (stat ''enemies-defeated'' p))
          (take n (js_sort enemiesCmp players))"
    using sorted_descending [OF enemies_ok]
    by (simp add: cmp_is_stat [abs_def] sorted_wrt_take)
  then have e: "sorted_wrt (\<lambda>e e'. num_le (toNumber (enemies e')) (toNumber (enemies e)))
       (snd (topEnemiesN n players))"
    by (simp add: topEnemiesN_def Let_def sorted_wrt_map ev)
  have sc: "filter (\<lambda>p. stat ''coins-collected'' p = k) (fst (topCoinsN n players)) =
          filter (\<lambda>p. stat ''coins-collected'' p = k) players" for k
    by (simp add: topCoinsN_def Let_def cmp_is_stat [abs_def] stable_by_stat)
  have se: "filter (\<lambda>p. stat ''enemies-defeated'' p = k) (fst (topEnemiesN n players)) =
          filter (\<lambda>p. stat ''enemies-defeated'' p = k) players" for k
    by (simp add: topEnemiesN_def Let_def cmp_is_stat [abs_def] stable_by_stat)
  from c e sc se show ?thesis by blast
qed

theorem ranking_example:
  "stat ''coins-collected'' [(''username'', JStr ''a''), (''coins-collected'', JNum (Fin 5))] = Fin 5 \<and>
   stat ''coins-collected'' [(''username'', JStr ''b''), (''coins-collected'', JNum (Fin 5))] = Fin 5 \<and>
   stat ''coins-collected'' [(''username'', JStr ''c''), (''coins-collected'', JNum (Fin 9))] = Fin 9 \<and>
   snd (topCoinsN 2
     [[(''username'', JStr ''a''), (''coins-collected'', JNum (Fin 5))],
      [(''username'', JStr ''b''), (''coins-collected'', JNum (Fin 5))],
      [(''username'', JStr ''c''), (''coins-collected'', JNum (Fin 9))]]) =
     [\<lparr>username = JStr ''c'', coins = JNum (Fin 9)\<rparr>,
      \<lparr>username = JStr ''a'', coins = JNum (Fin 5)\<rparr>]"
  using ranking_sorted_and_stable
    [of "[[(''username'', JStr ''a''), (''coins-collected'', JNum (Fin 5))],
          [(''username'', JStr ''b''), (''coins-collected'', JNum (Fin 5))],
          [(''username'', JStr ''c''), (''coins-collected'', JNum (Fin 9))]]" 2]
  by (simp add: stat_def topCoinsN_def js_sort_def coinsCmp_def coinsEntry_def js_or_def
        js_sub_def field_def)

lemma mapE_length: "mapE f xs = Inr ys \<Longrightarrow> length ys = length xs"
  by (induction xs arbitrary: ys) (auto split: sum.splits)

lemma mapE_map: "mapE f xs = Inr ys \<Longrightarrow> map Inr ys = map f xs"
  by (induction xs arbitrary: ys) (auto split: sum.splits)

lemma playerTimes_username: "playerTimes p = Inr t \<Longrightarrow> username t = field p ''username''"
  by (auto simp: playerTimes_def Let_def split: sum.splits if_splits)

lemma mapE_usernames:
  "mapE playerTimes ps = Inr ts \<Longrightarrow> map username ts = map (\<lambda>p. field p ''username'') ps"
  by (induction ps arbitrary: ts) (auto split: sum.splits dest: playerTimes_username)

text \<open>
  The two sorts only permute the array, and when nothing is raised \<open>allFastestTimes\<close>
  has one entry for each player, in the order of the array after the sorts; a player
  with no \<open>fastest-times\<close> gets the empty object.
\<close>

theorem one_entry_per_player:
  "mset (fst (compose players)) = mset players \<and>
   (snd (compose players) = Inr (Leaderboard tc te ts) \<longrightarrow>
      length ts = length players \<and>
      map username ts = map (\<lambda>p. field p ''username'') (fst (compose players))) \<and>
   (\<not> truthy (field p ''fastest-times'') \<longrightarrow>
      playerTimes p = Inr \<lparr>username = field p ''username'', fastestTimes = []\<rparr>)"
proof -
  have m: "mset (fst (compose players)) = mset players"
    by (simp add: compose_def topCoinsN_def topEnemiesN_def Let_def mset_js_sort)
  have l: "length (fst (compose players)) = length players"
    using m by (metis size_mset)
  have "length ts = length players \<and>
      map username ts = map (\<lambda>p. field p ''username'') (fst (compose players))"
    if "snd (compose players) = Inr (Leaderboard tc te ts)"
    using compose_times [OF that] mapE_length mapE_usernames l by metis
  moreover have "\<not> truthy (field p ''fastest-times'') \<longrightarrow>
      playerTimes p = Inr \<lparr>username = field p ''username'', fastestTimes = []\<rparr>"
    by (simp add: playerTimes_def)
  ultimately show ?thesis using m by blast
qed

theorem one_entry_per_player_example:
  "snd (compose [[(''username'', JStr ''a'')]]) =
     Inr (Leaderboard [\<lparr>username = JStr ''a'', coins = JNum (Fin 0)\<rparr>]
            [\<lparr>username = JStr ''a'', enemies = JNum (Fin 0)\<rparr>]
            [\<lparr>username = JStr ''a'', fastestTimes = []\<rparr>]) \<and>
   \<not> truthy (field [(''username'', JStr ''a'')] ''fastest-times'') \<and>
   playerTimes [(''username'', JStr ''a'')] = Inr \<lparr>username = JStr ''a'', fastestTimes = []\<rparr>"
  using one_entry_per_player
    [of "[[(''username'', JStr ''a'')]]" "[\<lparr>username = JStr ''a'', coins = JNum (Fin 0)\<rparr>]"
        "[\<lparr>username = JStr ''a'', enemies = JNum (Fin 0)\<rparr>]"
        "[\<lparr>username = JStr ''a'', fastestTimes = []\<rparr>]" "[(''username'', JStr ''a'')]"]
  by (simp add: compose_def topCoinsN_def topEnemiesN_def js_sort_def coinsEntry_def
        enemiesEntry_def js_or_def field_def playerTimes_def)

lemma read_prop_total: "v \<noteq> JNull \<Longrightarrow> v \<noteq> JUndefined \<Longrightarrow> \<exists>w. read_prop v k = Inr w"
  by (cases v) simp_all

lemma levelTimes_total:
  assumes "list_all (\<lambda>timeObj. timeObj \<noteq> JNull \<and> timeObj \<noteq> JUndefined) elems"
  shows "\<exists>ts. levelTimes (JArr elems) = Inr ts"
proof -
  have "\<forall>x \<in> set elems. \<exists>y. (case read_prop x ''N'' of Inl e \<Rightarrow> Inl e
                                   | Inr n \<Rightarrow> Inr (parseFloat n)) = Inr y"
  proof
    fix x assume "x \<in> set elems"
    then have "x \<noteq> JNull" "x \<noteq> JUndefined" using assms by (auto simp: list_all_iff)
    then obtain w where "read_prop x ''N'' = Inr w" using read_prop_total by blast
    then show "\<exists>y. (case read_prop x ''N'' of Inl e \<Rightarrow> Inl e
                      | Inr n \<Rightarrow> Inr (parseFloat n)) = Inr y" by simp
  qed
  from mapE_total [OF this] show ?thesis by auto
qed

lemma level_ok_times:
  "level_ok v \<Longrightarrow> truthy (opt_read_prop v ''L'') \<Longrightarrow>
   \<exists>ts. levelTimes (opt_read_prop v ''L'') = Inr ts"
  unfolding level_ok_def using levelTimes_total
  by (cases "opt_read_prop v ''L''") auto

lemma levels_loop_total:
  "\<forall>(level, v) \<in> set kvs. level_ok v \<Longrightarrow> \<exists>out. levels_loop kvs ft = Inr out"
proof (induction kvs arbitrary: ft)
  case Nil
  then show ?case by simp
next
  case (Cons kv kvs)
  obtain level v where kv: "kv = (level, v)" by (cases kv)
  show ?case
  proof (cases "truthy (opt_read_prop v ''L'')")
    case True
    then obtain ts where "levelTimes (opt_read_prop v ''L'') = Inr ts"
      using level_ok_times Cons.prems kv by auto
    then show ?thesis using True Cons kv by simp
  next
    case False
    then show ?thesis using Cons kv by simp
  qed
qed

text \<open>
  When every level of every player is one the loop can work on, nothing is raised and
  the handler answers 200.
\<close>

theorem well_formed_levels_raise_nothing:
  assumes "\<forall>p \<in> set players.
             \<forall>(level, v) \<in> set (for_in (field p ''fastest-times'')). level_ok v"
  shows "(\<forall>p \<in> set players. \<exists>t. playerTimes p = Inr t) \<and>
         statusCode (leaderboard_handler ''GET'' (Inr (Some players))) = JStr ''200''"
proof -
  have "\<exists>t. playerTimes p = Inr t" if "p \<in> set players" for p
  proof -
    have "\<forall>(level, v) \<in> set (for_in (field p ''fastest-times'')). level_ok v"
      using assms that by blast
    then obtain out where "levels_loop (for_in (field p ''fastest-times'')) [] = Inr out"
      using levels_loop_total by blast
    then show ?thesis by (simp add: playerTimes_def Let_def)
  qed
  then show ?thesis using handler_ok by blast
qed

theorem well_formed_levels_example:
  "level_ok (tagged [''3.2'', ''bad'']) \<and> level_ok (JArr [JNum (Fin 3)]) \<and> level_ok JNull \<and>
   statusCode (leaderboard_handler ''GET'' (Inr (Some
     [[(''username'', JStr ''a''),
       (''fastest-times'', JObj [(''level1'', tagged [''3.2'', ''bad'']),
                                 (''level2'', JArr [JNum (Fin 3)]), (''level3'', JNull)])]])))
     = JStr ''200''"
proof -
  let ?p = "[(''username'', JStr ''a''),
       (''fastest-times'', JObj [(''level1'', tagged [''3.2'', ''bad'']),
                                 (''level2'', JArr [JNum (Fin 3)]), (''level3'', JNull)])]"
  have ok: "level_ok (tagged [''3.2'', ''bad''])" "level_ok (JArr [JNum (Fin 3)])" "level_ok JNull"
    by (simp_all add: level_ok_def tagged_def field_def)
  have "\<forall>p \<in> set [?p]. \<forall>(level, v) \<in> set (for_in (field p ''fastest-times'')). level_ok v"
    using ok by (simp add: field_def)
  from well_formed_levels_raise_nothing [OF this] ok show ?thesis by blast
qed

text \<open>
  The handler that writes the statistics answers a failure of the store with the status
  500.
\<close>

theorem update_store_failure_answers_500:
  assumes "qparam qs ''username'' = Some name" and "name \<noteq> []"
    and "JSON_parse (str_or (qparam qs ''levelsCompleted'') ''[]'') = Inr parsedLevels"
    and "JSON_parse (str_or (qparam qs ''fastestTimes'') ''{}'') = Inr parsedFastestTimes"
    and "put (make_item name (qparam qs ''coinsCollected'') (qparam qs ''enemiesDefeated'')
               parsedLevels parsedFastestTimes) = Some err"
  shows "update_handler JSON_parse put qs =
           (\<lparr>statusCode = JNum (Fin 500),
             body = MessageError ''Failed to update player stats.'' err,
             headers = None\<rparr>, None)"
  using assms by (simp add: update_handler_def update_failed_def)

theorem update_store_failure_example:
  "update_handler (\<lambda>s. if s = ''[]'' then Inr (JArr []) else Inr (JObj []))
     (\<lambda>item. Some (StoreError ''timeout'')) (Some [(''username'', ''a'')]) =
     (\<lparr>statusCode = JNum (Fin 500),
       body = MessageError ''Failed to update player stats.'' (StoreError ''timeout''),
       headers = None\<rparr>, None)"
  using update_store_failure_answers_500
    [of "Some [(''username'', ''a'')]" "''a''"
        "\<lambda>s. if s = ''[]'' then Inr (JArr []) else Inr (JObj [])" "JArr []" "JObj []"
        "\<lambda>item. Some (StoreError ''timeout'')" "StoreError ''timeout''"]
  by (simp add: qparam_def str_or_def)

end
